theory Spec2Isabelle
  imports Complex_Main "HOL-Library.AList"
begin

section \<open>Values and exceptions\<close>

text \<open>
  The history code of \<^verbatim>\<open>services/storage.ts\<close> works on whatever \<^verbatim>\<open>JSON.parse\<close> returns;
  the TypeScript annotation \<^verbatim>\<open>SavedRecipe[]\<close> is an unchecked cast. Values are therefore
  modelled as JSON values. An object is the list of its own properties in enumeration
  order. Numbers are rationals: the code never computes with a stored number, and
  non-finite doubles (\<^verbatim>\<open>NaN\<close>, \<^verbatim>\<open>Infinity\<close>), which \<^verbatim>\<open>JSON.stringify\<close> writes as
  \<^verbatim>\<open>null\<close>, are outside the model.
\<close>

datatype json =
    JNull
  | JBool bool
  | JNum rat
  | JStr string
  | JArr "json list"
  | JObj "(string \<times> json) list"

datatype error = SecurityError | QuotaExceededError | SyntaxError | TypeError | ApiError

section \<open>Browser storage\<close>

text \<open>
  The string kept under a key, classified by what the code can observe of it:
  \<open>Blank\<close> is the empty string (falsy, and rejected by \<^verbatim>\<open>JSON.parse\<close>), \<open>Malformed\<close> is
  a non-empty string that \<^verbatim>\<open>JSON.parse\<close> rejects, \<open>Encoded v\<close> is a string that
  \<^verbatim>\<open>JSON.parse\<close> reads as \<open>v\<close>.
\<close>

datatype blob = Blank | Malformed | Encoded json

text \<open>
  \<open>slot\<close> is the entry under \<^verbatim>\<open>STORAGE_KEY = 'culinaryai_history'\<close>, the only key the
  code touches. \<open>denied\<close>: the browser refuses access to \<^verbatim>\<open>localStorage\<close>, so every use of
  it throws. \<open>full\<close>: the quota is exhausted, so \<^verbatim>\<open>setItem\<close> throws and stores nothing.
\<close>

record storage =
  denied :: bool
  full :: bool
  slot :: "blob option"

text \<open>A computation runs on the storage and ends with a value or a thrown exception.\<close>

type_synonym 'a js = "storage \<Rightarrow> (error + 'a) \<times> storage"

definition ret :: "'a \<Rightarrow> 'a js" where
  "ret x = (\<lambda>s. (Inr x, s))"

definition lift :: "error + 'a \<Rightarrow> 'a js" where
  "lift r = (\<lambda>s. (r, s))"

definition andThen :: "'a js \<Rightarrow> ('a \<Rightarrow> 'b js) \<Rightarrow> 'b js" where
  "andThen m f = (\<lambda>s. case m s of (Inl e, s') \<Rightarrow> (Inl e, s') | (Inr x, s') \<Rightarrow> f x s')"

definition tryCatch :: "'a js \<Rightarrow> (error \<Rightarrow> 'a js) \<Rightarrow> 'a js" where
  "tryCatch m h = (\<lambda>s. case m s of (Inl e, s') \<Rightarrow> h e s' | (Inr x, s') \<Rightarrow> (Inr x, s'))"

definition getItem :: "blob option js" where
  "getItem = (\<lambda>s. if denied s then (Inl SecurityError, s) else (Inr (slot s), s))"

definition setItem :: "blob \<Rightarrow> unit js" where
  "setItem v = (\<lambda>s. if denied s then (Inl SecurityError, s)
                     else if full s then (Inl QuotaExceededError, s)
                     else (Inr (), s\<lparr>slot := Some v\<rparr>))"

definition removeItem :: "unit js" where
  "removeItem = (\<lambda>s. if denied s then (Inl SecurityError, s) else (Inr (), s\<lparr>slot := None\<rparr>))"

definition JSON_parse :: "blob \<Rightarrow> error + json" where
  "JSON_parse t = (case t of Blank \<Rightarrow> Inl SyntaxError | Malformed \<Rightarrow> Inl SyntaxError
                   | Encoded v \<Rightarrow> Inr v)"

definition JSON_stringify :: "json \<Rightarrow> blob" where
  "JSON_stringify v = Encoded v"

text \<open>Truthiness of the \<^verbatim>\<open>string | null\<close> that \<^verbatim>\<open>getItem\<close> returns.\<close>

fun truthy :: "blob option \<Rightarrow> bool" where
  "truthy None = False"
| "truthy (Some Blank) = False"
| "truthy (Some t) = True"

section \<open>The history store (services/storage.ts)\<close>

record VideoSearchResult =
  title :: string
  uri :: string
  source :: string

definition video_json :: "VideoSearchResult \<Rightarrow> json" where
  "video_json v = JObj [(''title'', JStr (title v)), (''uri'', JStr (uri v)),
                        (''source'', JStr (source v))]"

text \<open>
  The object literal \<^verbatim>\<open>newItem\<close>. The identifier and the timestamp come from
  \<^verbatim>\<open>crypto.randomUUID()\<close> and \<^verbatim>\<open>Date.now()\<close> and are parameters here. The recipe is the
  unchecked result of \<^verbatim>\<open>JSON.parse\<close> in \<^verbatim>\<open>generateRecipe\<close> and is stored as it is.
\<close>

definition newItem :: "string \<Rightarrow> rat \<Rightarrow> string \<Rightarrow> json \<Rightarrow> VideoSearchResult list \<Rightarrow> json" where
  "newItem uuid now query recipe videos =
     JObj [(''id'', JStr uuid), (''timestamp'', JNum now), (''query'', JStr query),
           (''recipe'', recipe), (''videos'', JArr (map video_json videos))]"

text \<open>\<^verbatim>\<open>history.unshift(x)\<close>: only an array has the method; the call on anything else throws.\<close>

fun unshift :: "json \<Rightarrow> json \<Rightarrow> error + json list" where
  "unshift x (JArr xs) = Inr (x # xs)"
| "unshift x v = Inl TypeError"

definition saveRecipeToHistory ::
  "string \<Rightarrow> rat \<Rightarrow> string \<Rightarrow> json \<Rightarrow> VideoSearchResult list \<Rightarrow> json option js" where
  "saveRecipeToHistory uuid now query recipe videos =
     tryCatch
       (andThen getItem (\<lambda>existingHistoryJSON.
        andThen (if truthy existingHistoryJSON
                 then lift (JSON_parse (the existingHistoryJSON))
                 else ret (JArr [])) (\<lambda>parsed.
        andThen (lift (unshift (newItem uuid now query recipe videos) parsed)) (\<lambda>history.
        andThen (setItem (JSON_stringify
                   (JArr (if length history > 20 then take 20 history else history)))) (\<lambda>_.
        ret (Some (newItem uuid now query recipe videos)))))))
       (\<lambda>e. ret None)"

definition getSavedRecipes :: "json js" where
  "getSavedRecipes =
     tryCatch
       (andThen getItem (\<lambda>json.
        if truthy json then lift (JSON_parse (the json)) else ret (JArr [])))
       (\<lambda>e. ret (JArr []))"

text \<open>
  The callback of \<^verbatim>\<open>history.map\<close>. Reading \<^verbatim>\<open>item.id\<close> throws on \<^verbatim>\<open>null\<close>; on a number,
  boolean, string or array it is \<^verbatim>\<open>undefined\<close>, which is not \<^verbatim>\<open>=== id\<close>. The spread
  \<^verbatim>\<open>{ ...item, userRating: rating }\<close> keeps the properties in their order and either
  overwrites \<^verbatim>\<open>userRating\<close> in place or adds it last.
\<close>

fun rate_item :: "string \<Rightarrow> rat \<Rightarrow> json \<Rightarrow> error + json" where
  "rate_item i r JNull = Inl TypeError"
| "rate_item i r (JObj kv) =
     Inr (if map_of kv ''id'' = Some (JStr i)
          then JObj (AList.update ''userRating'' (JNum r) kv) else JObj kv)"
| "rate_item i r item = Inr item"

text \<open>\<^verbatim>\<open>xs.map(f)\<close> with a callback that may throw: the first exception ends the loop.\<close>

fun map_items :: "(json \<Rightarrow> error + json) \<Rightarrow> json list \<Rightarrow> error + json list" where
  "map_items f [] = Inr []"
| "map_items f (x # xs) =
     (case f x of Inl e \<Rightarrow> Inl e
      | Inr y \<Rightarrow> (case map_items f xs of Inl e \<Rightarrow> Inl e | Inr ys \<Rightarrow> Inr (y # ys)))"

text \<open>\<^verbatim>\<open>history.map(f)\<close> on the parsed value: anything but an array has no \<^verbatim>\<open>map\<close>.\<close>

fun array_map :: "(json \<Rightarrow> error + json) \<Rightarrow> json \<Rightarrow> error + json list" where
  "array_map f (JArr xs) = map_items f xs"
| "array_map f v = Inl TypeError"

definition updateRecipeRating :: "string \<Rightarrow> rat \<Rightarrow> json js" where
  "updateRecipeRating i rating =
     tryCatch
       (andThen getItem (\<lambda>existingHistoryJSON.
        if \<not> truthy existingHistoryJSON then ret (JArr [])
        else
          andThen (lift (JSON_parse (the existingHistoryJSON))) (\<lambda>parsed.
          andThen (lift (array_map (rate_item i rating) parsed)) (\<lambda>history.
          andThen (setItem (JSON_stringify (JArr history))) (\<lambda>_.
          ret (JArr history))))))
       (\<lambda>e. ret (JArr []))"

text \<open>\<^verbatim>\<open>clearHistory\<close> has no \<^verbatim>\<open>try\<close>: an exception of \<^verbatim>\<open>removeItem\<close> reaches the caller.\<close>

definition clearHistory :: "unit js" where
  "clearHistory = removeItem"

text \<open>
  The rating handler of \<^verbatim>\<open>App\<close>: the part of the component state it touches, and the
  handler itself. An absent or empty \<^verbatim>\<open>currentSavedId\<close> is falsy and nothing happens.
\<close>

record ui =
  savedRecipes :: json
  currentSavedId :: "string option"
  currentUserRating :: rat

definition handleRateRecipe :: "rat \<Rightarrow> ui \<Rightarrow> ui js" where
  "handleRateRecipe rating u =
     (case currentSavedId u of
        None \<Rightarrow> ret u
      | Some i \<Rightarrow>
          if i = [] then ret u
          else andThen (updateRecipeRating i rating) (\<lambda>updated.
               ret (u\<lparr>savedRecipes := updated, currentUserRating := rating\<rparr>)))"

text \<open>A run of calls of \<^verbatim>\<open>saveRecipeToHistory\<close>, one after the other, with their results.\<close>

type_synonym call = "string \<times> rat \<times> string \<times> json \<times> VideoSearchResult list"

definition item_of :: "call \<Rightarrow> json" where
  "item_of c = (case c of (uuid, now, query, recipe, videos) \<Rightarrow>
                  newItem uuid now query recipe videos)"

definition save_call :: "call \<Rightarrow> json option js" where
  "save_call c = (case c of (uuid, now, query, recipe, videos) \<Rightarrow>
                    saveRecipeToHistory uuid now query recipe videos)"

fun appends :: "call list \<Rightarrow> storage \<Rightarrow> (error + json option) list \<times> storage" where
  "appends [] s = ([], s)"
| "appends (c # cs) s =
     (case save_call c s of (r, s') \<Rightarrow>
        (case appends cs s' of (rs, s'') \<Rightarrow> (r # rs, s'')))"

text \<open>An entry carries the identifier \<open>i\<close>: the test \<^verbatim>\<open>item.id === id\<close> where it does not throw.\<close>

fun has_id :: "string \<Rightarrow> json \<Rightarrow> bool" where
  "has_id i (JObj kv) = (map_of kv ''id'' = Some (JStr i))"
| "has_id i v = False"

text \<open>An entry with its \<^verbatim>\<open>userRating\<close> set, as the spread builds it.\<close>

fun with_rating :: "rat \<Rightarrow> json \<Rightarrow> json" where
  "with_rating r (JObj kv) = JObj (AList.update ''userRating'' (JNum r) kv)"
| "with_rating r v = v"

fun is_object :: "json \<Rightarrow> bool" where
  "is_object (JObj kv) = True"
| "is_object v = False"

fun is_array :: "json \<Rightarrow> bool" where
  "is_array (JArr xs) = True"
| "is_array v = False"

text \<open>The own properties of a value: those of an object, none otherwise.\<close>

fun props :: "json \<Rightarrow> (string \<times> json) list" where
  "props (JObj kv) = kv"
| "props v = []"

section \<open>The video lookup (services/gemini.ts)\<close>

record WebRef =
  web_uri :: "string option"
  web_title :: "string option"

record GroundingChunk =
  web :: "WebRef option"

text \<open>\<^verbatim>\<open>s.includes(n)\<close>: \<open>n\<close> occurs in \<open>s\<close> as a contiguous piece.\<close>

fun str_includes :: "string \<Rightarrow> string \<Rightarrow> bool" where
  "str_includes [] n = (n = [])"
| "str_includes (c # cs) n = (take (length n) (c # cs) = n \<or> str_includes cs n)"

text \<open>\<^verbatim>\<open>toLowerCase\<close> on the ASCII letters; other characters are kept.\<close>

definition toLowerCase :: "string \<Rightarrow> string" where
  "toLowerCase s =
     map (\<lambda>c. case map_of (zip ''ABCDEFGHIJKLMNOPQRSTUVWXYZ'' ''abcdefghijklmnopqrstuvwxyz'') c of
                 None \<Rightarrow> c | Some d \<Rightarrow> d) s"

text \<open>
  The body of the \<^verbatim>\<open>forEach\<close> callback: the entry pushed for a chunk, if any. A missing
  or empty \<^verbatim>\<open>uri\<close> or \<^verbatim>\<open>title\<close> is falsy.
\<close>

definition video_of_chunk :: "GroundingChunk \<Rightarrow> VideoSearchResult option" where
  "video_of_chunk chunk =
     (case web chunk of
        None \<Rightarrow> None
      | Some w \<Rightarrow>
          (case web_uri w of
             None \<Rightarrow> None
           | Some u \<Rightarrow>
               (case web_title w of
                  None \<Rightarrow> None
                | Some t \<Rightarrow>
                    if u \<noteq> [] \<and> t \<noteq> [] \<and>
                       (str_includes u ''youtube.com'' \<or> str_includes u ''youtu.be'' \<or>
                        str_includes u ''vimeo.com'' \<or> str_includes u ''tiktok.com'' \<or>
                        str_includes (toLowerCase t) ''video'')
                    then Some \<lparr>title = t, uri = u,
                               source = (if str_includes u ''youtube'' then ''YouTube'' else ''Web'')\<rparr>
                    else None)))"

text \<open>
  \<^verbatim>\<open>new Map(entries)\<close>: a key that is already present keeps its place and takes the new
  value; a new key goes last. \<^verbatim>\<open>values()\<close> lists the values in that order.
\<close>

definition Map_new :: "('k \<times> 'v) list \<Rightarrow> ('k \<times> 'v) list" where
  "Map_new entries = foldl (\<lambda>m e. AList.update (fst e) (snd e) m) [] entries"

definition Map_values :: "('k \<times> 'v) list \<Rightarrow> 'v list" where
  "Map_values m = map snd m"

text \<open>
  The request to the model is outside the program: \<open>response\<close> is either the exception
  the awaited call ended with, or the value of
  \<^verbatim>\<open>response.candidates?.[0]?.groundingMetadata?.groundingChunks\<close>.
\<close>

definition findRecipeVideos ::
  "error + GroundingChunk list option \<Rightarrow> error + VideoSearchResult list" where
  "findRecipeVideos response =
     (case response of
        Inl e \<Rightarrow> Inr []
      | Inr chunks \<Rightarrow>
          Inr (take 4 (Map_values (Map_new (map (\<lambda>item. (uri item, item))
                 (case chunks of None \<Rightarrow> []
                  | Some cs \<Rightarrow> List.map_filter video_of_chunk cs))))))"

section \<open>What each operation computes\<close>

text \<open>
  The operations unfolded once and for all: one case per way through the \<^verbatim>\<open>try\<close> block.
  No exception leaves \<^verbatim>\<open>saveRecipeToHistory\<close>, \<^verbatim>\<open>getSavedRecipes\<close> or
  \<^verbatim>\<open>updateRecipeRating\<close>, and only a completed \<^verbatim>\<open>setItem\<close> changes the storage.
\<close>

lemmas js_defs = ret_def lift_def andThen_def tryCatch_def getItem_def setItem_def
  removeItem_def JSON_parse_def JSON_stringify_def

lemma getSavedRecipes_eq:
  "getSavedRecipes s =
     (if denied s then (Inr (JArr []), s)
      else case slot s of
             None \<Rightarrow> (Inr (JArr []), s)
           | Some Blank \<Rightarrow> (Inr (JArr []), s)
           | Some Malformed \<Rightarrow> (Inr (JArr []), s)
           | Some (Encoded v) \<Rightarrow> (Inr v, s))"
  by (simp add: getSavedRecipes_def js_defs split: option.splits blob.splits)

lemma saveRecipeToHistory_eq:
  "saveRecipeToHistory uuid now query recipe videos s =
     (if denied s \<or> full s then (Inr None, s)
      else case slot s of
             None \<Rightarrow> (Inr (Some (newItem uuid now query recipe videos)),
                       s\<lparr>slot := Some (Encoded (JArr [newItem uuid now query recipe videos]))\<rparr>)
           | Some Blank \<Rightarrow> (Inr (Some (newItem uuid now query recipe videos)),
                       s\<lparr>slot := Some (Encoded (JArr [newItem uuid now query recipe videos]))\<rparr>)
           | Some Malformed \<Rightarrow> (Inr None, s)
           | Some (Encoded v) \<Rightarrow>
               (case v of
                  JArr xs \<Rightarrow> (Inr (Some (newItem uuid now query recipe videos)),
                     s\<lparr>slot := Some (Encoded (JArr (take 20 (newItem uuid now query recipe videos # xs))))\<rparr>)
                | _ \<Rightarrow> (Inr None, s)))"
  by (simp add: saveRecipeToHistory_def js_defs split: option.splits blob.splits json.splits)

lemma updateRecipeRating_eq:
  "updateRecipeRating i r s =
     (if denied s then (Inr (JArr []), s)
      else case slot s of
             None \<Rightarrow> (Inr (JArr []), s)
           | Some Blank \<Rightarrow> (Inr (JArr []), s)
           | Some Malformed \<Rightarrow> (Inr (JArr []), s)
           | Some (Encoded v) \<Rightarrow>
               (case array_map (rate_item i r) v of
                  Inl e \<Rightarrow> (Inr (JArr []), s)
                | Inr h \<Rightarrow> if full s then (Inr (JArr []), s)
                           else (Inr (JArr h), s\<lparr>slot := Some (Encoded (JArr h))\<rparr>)))"
  by (simp add: updateRecipeRating_def js_defs split: option.splits blob.splits sum.splits)

lemma rate_item_ok:
  "x \<noteq> JNull \<Longrightarrow> rate_item i r x = Inr (if has_id i x then with_rating r x else x)"
  by (cases x) simp_all

lemma map_items_ok:
  "JNull \<notin> set xs \<Longrightarrow>
   map_items (rate_item i r) xs = Inr (map (\<lambda>x. if has_id i x then with_rating r x else x) xs)"
proof (induction xs)
  case Nil
  then show ?case by simp
next
  case (Cons x xs)
  then have "x \<noteq> JNull" and "JNull \<notin> set xs" by auto
  with Cons.IH show ?case by (simp add: rate_item_ok)
qed

lemma map_items_null:
  "JNull \<in> set xs \<Longrightarrow> map_items (rate_item i r) xs = Inl TypeError"
proof (induction xs)
  case Nil
  then show ?case by simp
next
  case (Cons x xs)
  show ?case
  proof (cases "x = JNull")
    case True
    then show ?thesis by simp
  next
    case False
    with Cons have "map_items (rate_item i r) xs = Inl TypeError" by simp
    with False show ?thesis by (simp add: rate_item_ok)
  qed
qed

lemma array_map_not_array: "\<not> is_array v \<Longrightarrow> array_map f v = Inl TypeError"
  by (cases v) simp_all

lemma map_no_match:
  "\<forall>x\<in>set xs. \<not> has_id i x \<Longrightarrow> map (\<lambda>x. if has_id i x then with_rating r x else x) xs = xs"
  by (induction xs) simp_all

lemma map_one_match:
  assumes "k < length xs" "\<forall>j<length xs. j \<noteq> k \<longrightarrow> \<not> P (xs ! j)" "P (xs ! k)"
  shows "map (\<lambda>x. if P x then f x else x) xs = xs[k := f (xs ! k)]"
proof (rule nth_equalityI)
  show "length (map (\<lambda>x. if P x then f x else x) xs) = length (xs[k := f (xs ! k)])" by simp
next
  fix j assume "j < length (map (\<lambda>x. if P x then f x else x) xs)"
  then have j: "j < length xs" by simp
  show "map (\<lambda>x. if P x then f x else x) xs ! j = xs[k := f (xs ! k)] ! j"
  proof (cases "j = k")
    case True
    with assms j show ?thesis by simp
  next
    case False
    with assms j show ?thesis by simp
  qed
qed

lemma with_rating_props:
  "has_id i x \<Longrightarrow> map_of (props (with_rating r x)) = (map_of (props x))(''userRating'' \<mapsto> JNum r)"
  by (cases x) (simp_all add: update_conv')

lemma with_rating_keys:
  "has_id i x \<Longrightarrow> map fst (props (with_rating r x)) =
     (if ''userRating'' \<in> set (map fst (props x)) then map fst (props x)
      else map fst (props x) @ [''userRating''])"
  by (cases x) (simp_all add: update_keys)

lemma updateRecipeRating_log:
  assumes "\<not> denied s" "\<not> full s" "slot s = Some (Encoded (JArr items))" "JNull \<notin> set items"
  shows "updateRecipeRating i r s =
           (Inr (JArr (map (\<lambda>x. if has_id i x then with_rating r x else x) items)),
            s\<lparr>slot := Some (Encoded (JArr (map (\<lambda>x. if has_id i x then with_rating r x else x) items)))\<rparr>)"
  using assms by (simp add: updateRecipeRating_eq map_items_ok)

lemma storage_same_slot: "slot s = v \<Longrightarrow> s\<lparr>slot := v\<rparr> = s"
  by simp

section \<open>Rating an entry\<close>

text \<open>
  In the theorems of this section a stored log is a blob that parses to an array none of
  whose entries is \<^verbatim>\<open>null\<close>, on a storage that can be read and written
  (\<open>\<not> denied s\<close>, \<open>\<not> full s\<close>). What happens otherwise is the subject of the
  section on a failed rating.
\<close>

text \<open>
  C2. When exactly one entry of the stored log, the one at position \<open>k\<close>, has the
  identifier \<open>i\<close>, \<^verbatim>\<open>updateRecipeRating(i, r)\<close> returns and stores the same log with that
  entry replaced: the log keeps its length, every other entry stays where it was and as it
  was, the entry at \<open>k\<close> is still an object, its \<^verbatim>\<open>userRating\<close> is \<open>r\<close>, each of its other
  properties has the value it had, and its property names keep their order
  (\<^verbatim>\<open>userRating\<close> goes last when it is new). Reading the log back through
  \<^verbatim>\<open>getSavedRecipes\<close> yields the returned log.
\<close>

theorem setRating_changes_one_rating:
  assumes "\<not> denied s" and "\<not> full s"
    and "slot s = Some (Encoded (JArr items))" and "JNull \<notin> set items"
    and "k < length items" and "has_id i (items ! k)"
    and "\<forall>j<length items. j \<noteq> k \<longrightarrow> \<not> has_id i (items ! j)"
  shows "\<exists>items'.
           items' = items[k := with_rating r (items ! k)]
         \<and> updateRecipeRating i r s = (Inr (JArr items'), s\<lparr>slot := Some (Encoded (JArr items'))\<rparr>)
         \<and> getSavedRecipes (s\<lparr>slot := Some (Encoded (JArr items'))\<rparr>)
             = (Inr (JArr items'), s\<lparr>slot := Some (Encoded (JArr items'))\<rparr>)
         \<and> length items' = length items
         \<and> (\<forall>j<length items. j \<noteq> k \<longrightarrow> items' ! j = items ! j)
         \<and> is_object (items' ! k)
         \<and> map_of (props (items' ! k)) ''userRating'' = Some (JNum r)
         \<and> (\<forall>f. f \<noteq> ''userRating'' \<longrightarrow>
                map_of (props (items' ! k)) f = map_of (props (items ! k)) f)
         \<and> map fst (props (items' ! k)) =
             (if ''userRating'' \<in> set (map fst (props (items ! k))) then map fst (props (items ! k))
              else map fst (props (items ! k)) @ [''userRating''])"
proof -
  let ?items' = "items[k := with_rating r (items ! k)]"
  have one: "map (\<lambda>x. if has_id i x then with_rating r x else x) items = ?items'"
    using assms(5,7,6) by (rule map_one_match)
  have upd: "updateRecipeRating i r s
               = (Inr (JArr ?items'), s\<lparr>slot := Some (Encoded (JArr ?items'))\<rparr>)"
    using updateRecipeRating_log [OF assms(1-4), of i r] by (simp only: one)
  have reread: "getSavedRecipes (s\<lparr>slot := Some (Encoded (JArr ?items'))\<rparr>)
                  = (Inr (JArr ?items'), s\<lparr>slot := Some (Encoded (JArr ?items'))\<rparr>)"
    using assms(1) by (simp add: getSavedRecipes_eq)
  have at_k: "?items' ! k = with_rating r (items ! k)"
    using assms(5) by simp
  have obj: "is_object (?items' ! k)"
    unfolding at_k using assms(6) by (cases "items ! k") simp_all
  have rating: "map_of (props (?items' ! k)) ''userRating'' = Some (JNum r)"
    unfolding at_k using assms(6) by (simp add: with_rating_props)
  have others: "\<forall>f. f \<noteq> ''userRating'' \<longrightarrow>
      map_of (props (?items' ! k)) f = map_of (props (items ! k)) f"
    unfolding at_k using assms(6) by (simp add: with_rating_props)
  have keys: "map fst (props (?items' ! k)) =
             (if ''userRating'' \<in> set (map fst (props (items ! k))) then map fst (props (items ! k))
              else map fst (props (items ! k)) @ [''userRating''])"
    unfolding at_k using assms(6) by (rule with_rating_keys)
  have rest: "\<forall>j<length items. j \<noteq> k \<longrightarrow> ?items' ! j = items ! j"
    by simp
  have len: "length ?items' = length items" by simp
  from refl [of ?items'] upd reread len rest obj rating others keys show ?thesis
    by (intro exI [of _ ?items'] conjI)
qed

theorem setRating_changes_one_rating_witness:
  "updateRecipeRating ''b'' 5
     \<lparr>denied = False, full = False,
      slot = Some (Encoded (JArr [JObj [(''id'', JStr ''a''), (''query'', JStr ''soup'')],
                                  JObj [(''id'', JStr ''b''), (''query'', JStr ''stew'')]]))\<rparr>
   = (Inr (JArr [JObj [(''id'', JStr ''a''), (''query'', JStr ''soup'')],
                 JObj [(''id'', JStr ''b''), (''query'', JStr ''stew''), (''userRating'', JNum 5)]]),
      \<lparr>denied = False, full = False,
      slot = Some (Encoded (JArr [JObj [(''id'', JStr ''a''), (''query'', JStr ''soup'')],
                 JObj [(''id'', JStr ''b''), (''query'', JStr ''stew''), (''userRating'', JNum 5)]]))\<rparr>)"
  using setRating_changes_one_rating
    [of "\<lparr>denied = False, full = False,
      slot = Some (Encoded (JArr [JObj [(''id'', JStr ''a''), (''query'', JStr ''soup'')],
                                  JObj [(''id'', JStr ''b''), (''query'', JStr ''stew'')]]))\<rparr>"
        "[JObj [(''id'', JStr ''a''), (''query'', JStr ''soup'')],
          JObj [(''id'', JStr ''b''), (''query'', JStr ''stew'')]]" 1 "''b''" 5]
  by (simp add: less_Suc_eq nth_Cons')

text \<open>
  C6. When no entry of the stored log has the identifier \<open>i\<close>,
  \<^verbatim>\<open>updateRecipeRating(i, r)\<close> throws nothing, writes the log back, and returns it: the
  value returned is the stored log and the storage after the call is the storage before it.
\<close>

theorem setRating_unknown_id_is_noop:
  assumes "\<not> denied s" and "\<not> full s"
    and "slot s = Some (Encoded (JArr items))" and "JNull \<notin> set items"
    and "\<forall>x\<in>set items. \<not> has_id i x"
  shows "updateRecipeRating i r s = (Inr (JArr items), s)
         \<and> getSavedRecipes s = (Inr (JArr items), s)"
proof -
  have same: "map (\<lambda>x. if has_id i x then with_rating r x else x) items = items"
    using assms(5) by (rule map_no_match)
  have "updateRecipeRating i r s = (Inr (JArr items), s\<lparr>slot := Some (Encoded (JArr items))\<rparr>)"
    using updateRecipeRating_log [OF assms(1-4), of i r] by (simp only: same)
  moreover have "s\<lparr>slot := Some (Encoded (JArr items))\<rparr> = s"
    using assms(3) by (rule storage_same_slot)
  moreover have "getSavedRecipes s = (Inr (JArr items), s)"
    using assms(1,3) by (simp add: getSavedRecipes_eq)
  ultimately show ?thesis by simp
qed

theorem setRating_unknown_id_is_noop_witness:
  "updateRecipeRating ''zz'' 4
     \<lparr>denied = False, full = False,
      slot = Some (Encoded (JArr [JObj [(''id'', JStr ''a''), (''query'', JStr ''soup'')],
                                  JObj [(''id'', JStr ''b''), (''query'', JStr ''stew'')]]))\<rparr>
   = (Inr (JArr [JObj [(''id'', JStr ''a''), (''query'', JStr ''soup'')],
                 JObj [(''id'', JStr ''b''), (''query'', JStr ''stew'')]]),
      \<lparr>denied = False, full = False,
      slot = Some (Encoded (JArr [JObj [(''id'', JStr ''a''), (''query'', JStr ''soup'')],
                                  JObj [(''id'', JStr ''b''), (''query'', JStr ''stew'')]]))\<rparr>)"
  using setRating_unknown_id_is_noop
    [of "\<lparr>denied = False, full = False,
      slot = Some (Encoded (JArr [JObj [(''id'', JStr ''a''), (''query'', JStr ''soup'')],
                                  JObj [(''id'', JStr ''b''), (''query'', JStr ''stew'')]]))\<rparr>"
        "[JObj [(''id'', JStr ''a''), (''query'', JStr ''soup'')],
          JObj [(''id'', JStr ''b''), (''query'', JStr ''stew'')]]" "''zz''" 4]
  by simp

text \<open>
  C3, as the code has it. \<^verbatim>\<open>history.map\<close> visits every entry, so every entry with the
  identifier \<open>i\<close> gets the rating, not only the first; the entries with another identifier
  are returned and stored as they were.
\<close>

theorem setRating_updates_every_match:
  assumes "\<not> denied s" and "\<not> full s"
    and "slot s = Some (Encoded (JArr items))" and "JNull \<notin> set items"
  shows "updateRecipeRating i r s =
           (Inr (JArr (map (\<lambda>x. if has_id i x then with_rating r x else x) items)),
            s\<lparr>slot := Some (Encoded (JArr
                  (map (\<lambda>x. if has_id i x then with_rating r x else x) items)))\<rparr>)"
  using assms by (rule updateRecipeRating_log)

theorem setRating_updates_every_match_witness:
  "updateRecipeRating ''a'' 5
     \<lparr>denied = False, full = False,
      slot = Some (Encoded (JArr [JObj [(''id'', JStr ''a''), (''query'', JStr ''soup'')],
                                  JObj [(''id'', JStr ''b''), (''query'', JStr ''rice'')],
                                  JObj [(''id'', JStr ''a''), (''query'', JStr ''stew'')]]))\<rparr>
   = (Inr (JArr [JObj [(''id'', JStr ''a''), (''query'', JStr ''soup''), (''userRating'', JNum 5)],
                 JObj [(''id'', JStr ''b''), (''query'', JStr ''rice'')],
                 JObj [(''id'', JStr ''a''), (''query'', JStr ''stew''), (''userRating'', JNum 5)]]),
      \<lparr>denied = False, full = False,
      slot = Some (Encoded (JArr
                [JObj [(''id'', JStr ''a''), (''query'', JStr ''soup''), (''userRating'', JNum 5)],
                 JObj [(''id'', JStr ''b''), (''query'', JStr ''rice'')],
                 JObj [(''id'', JStr ''a''), (''query'', JStr ''stew''), (''userRating'', JNum 5)]]))\<rparr>)"
  using setRating_updates_every_match
      [of "\<lparr>denied = False, full = False,
          slot = Some (Encoded (JArr [JObj [(''id'', JStr ''a''), (''query'', JStr ''soup'')],
                                      JObj [(''id'', JStr ''b''), (''query'', JStr ''rice'')],
                                      JObj [(''id'', JStr ''a''), (''query'', JStr ''stew'')]]))\<rparr>"
          "[JObj [(''id'', JStr ''a''), (''query'', JStr ''soup'')],
            JObj [(''id'', JStr ''b''), (''query'', JStr ''rice'')],
            JObj [(''id'', JStr ''a''), (''query'', JStr ''stew'')]]" "''a''" 5]
  by simp

text \<open>C3, as stated, fails: of two entries with the same identifier both are rated.\<close>

theorem setRating_first_match_only_counterexample:
  "fst (updateRecipeRating ''a'' 5
     \<lparr>denied = False, full = False,
      slot = Some (Encoded (JArr [JObj [(''id'', JStr ''a''), (''query'', JStr ''soup'')],
                                  JObj [(''id'', JStr ''a''), (''query'', JStr ''stew'')]]))\<rparr>)
   = Inr (JArr [JObj [(''id'', JStr ''a''), (''query'', JStr ''soup''), (''userRating'', JNum 5)],
                JObj [(''id'', JStr ''a''), (''query'', JStr ''stew''), (''userRating'', JNum 5)]])
   \<and> fst (updateRecipeRating ''a'' 5
     \<lparr>denied = False, full = False,
      slot = Some (Encoded (JArr [JObj [(''id'', JStr ''a''), (''query'', JStr ''soup'')],
                                  JObj [(''id'', JStr ''a''), (''query'', JStr ''stew'')]]))\<rparr>)
   \<noteq> Inr (JArr [JObj [(''id'', JStr ''a''), (''query'', JStr ''soup''), (''userRating'', JNum 5)],
                JObj [(''id'', JStr ''a''), (''query'', JStr ''stew'')]])"
  by (simp add: updateRecipeRating_eq)

section \<open>Reading and clearing\<close>

text \<open>
  C7, as the code has it. \<^verbatim>\<open>getSavedRecipes\<close> never throws and never changes the storage.
  When the read throws, the key is absent, or the blob is empty or cannot be parsed, it
  returns the empty array; when the blob encodes an array it returns that array.
\<close>

theorem list_degrades_to_empty:
  "\<exists>v. getSavedRecipes s = (Inr v, s)
      \<and> (denied s \<or> slot s = None \<or> slot s = Some Blank \<or> slot s = Some Malformed
           \<longrightarrow> v = JArr [])
      \<and> (\<forall>xs. \<not> denied s \<and> slot s = Some (Encoded (JArr xs)) \<longrightarrow> v = JArr xs)"
  by (auto simp add: getSavedRecipes_eq split: option.splits blob.splits)

theorem list_degrades_to_empty_witness:
  "getSavedRecipes \<lparr>denied = False, full = False, slot = Some Malformed\<rparr>
     = (Inr (JArr []), \<lparr>denied = False, full = False, slot = Some Malformed\<rparr>)
   \<and> getSavedRecipes \<lparr>denied = True, full = False, slot = Some (Encoded (JArr [JNum 1]))\<rparr>
     = (Inr (JArr []), \<lparr>denied = True, full = False, slot = Some (Encoded (JArr [JNum 1]))\<rparr>)
   \<and> getSavedRecipes \<lparr>denied = False, full = False, slot = Some (Encoded (JArr [JNum 1]))\<rparr>
     = (Inr (JArr [JNum 1]), \<lparr>denied = False, full = False, slot = Some (Encoded (JArr [JNum 1]))\<rparr>)"
  using list_degrades_to_empty [of "\<lparr>denied = False, full = False, slot = Some Malformed\<rparr>"]
    list_degrades_to_empty
      [of "\<lparr>denied = True, full = False, slot = Some (Encoded (JArr [JNum 1]))\<rparr>"]
    list_degrades_to_empty
      [of "\<lparr>denied = False, full = False, slot = Some (Encoded (JArr [JNum 1]))\<rparr>"]
  by auto

text \<open>
  C7, as stated, fails: a blob that parses to something other than an array, here the
  text \<^verbatim>\<open>{"id":"a"}\<close>, is returned as it is, and the value is not a sequence.
\<close>

theorem list_returns_sequence_counterexample:
  "fst (getSavedRecipes
          \<lparr>denied = False, full = False, slot = Some (Encoded (JObj [(''id'', JStr ''a'')]))\<rparr>)
     = Inr (JObj [(''id'', JStr ''a'')])
   \<and> \<not> is_array (JObj [(''id'', JStr ''a'')])
   \<and> JObj [(''id'', JStr ''a'')] \<noteq> JArr []"
  by (simp add: getSavedRecipes_eq)

text \<open>
  C8. On a storage the page may use, \<^verbatim>\<open>clearHistory\<close> removes the entry and throws
  nothing; after it \<^verbatim>\<open>getSavedRecipes\<close> returns the empty array; a second call changes
  nothing and throws nothing; and so does a call when there is no entry.
\<close>

theorem clear_is_idempotent:
  assumes "\<not> denied s"
  shows "clearHistory s = (Inr (), s\<lparr>slot := None\<rparr>)
       \<and> getSavedRecipes (s\<lparr>slot := None\<rparr>) = (Inr (JArr []), s\<lparr>slot := None\<rparr>)
       \<and> clearHistory (s\<lparr>slot := None\<rparr>) = (Inr (), s\<lparr>slot := None\<rparr>)
       \<and> (slot s = None \<longrightarrow> clearHistory s = (Inr (), s))"
  using assms by (simp add: clearHistory_def removeItem_def getSavedRecipes_eq)

theorem clear_is_idempotent_witness:
  "clearHistory \<lparr>denied = False, full = True, slot = Some (Encoded (JArr [JNum 1]))\<rparr>
     = (Inr (), \<lparr>denied = False, full = True, slot = None\<rparr>)
   \<and> getSavedRecipes \<lparr>denied = False, full = True, slot = None\<rparr>
     = (Inr (JArr []), \<lparr>denied = False, full = True, slot = None\<rparr>)
   \<and> clearHistory \<lparr>denied = False, full = True, slot = None\<rparr>
     = (Inr (), \<lparr>denied = False, full = True, slot = None\<rparr>)"
  using clear_is_idempotent
    [of "\<lparr>denied = False, full = True, slot = Some (Encoded (JArr [JNum 1]))\<rparr>"]
  by simp

text \<open>
  Outside C8: \<^verbatim>\<open>clearHistory\<close> is the one operation without a \<^verbatim>\<open>try\<close>. When the browser
  refuses access to the storage, the exception reaches the caller.
\<close>

lemma clearHistory_denied: "denied s \<Longrightarrow> clearHistory s = (Inl SecurityError, s)"
  by (simp add: clearHistory_def removeItem_def)

section \<open>Appending\<close>

text \<open>
  C5. When a step of \<^verbatim>\<open>saveRecipeToHistory\<close> fails (the read or the write throws,
  \<^verbatim>\<open>JSON.parse\<close> rejects the blob, or the parsed value is not an array), the call returns
  \<^verbatim>\<open>null\<close> and the storage is what it was. More generally: the call throws nothing, it
  returns either \<^verbatim>\<open>null\<close> or the created entry, and whenever it returns \<^verbatim>\<open>null\<close> the
  storage is unchanged.
\<close>

theorem append_failure_leaves_storage:
  "(denied s \<or> full s \<or> slot s = Some Malformed
      \<or> (\<exists>v. slot s = Some (Encoded v) \<and> \<not> is_array v)
     \<longrightarrow> saveRecipeToHistory uuid now query recipe videos s = (Inr None, s))
   \<and> (fst (saveRecipeToHistory uuid now query recipe videos s) = Inr None
     \<longrightarrow> snd (saveRecipeToHistory uuid now query recipe videos s) = s)
   \<and> (fst (saveRecipeToHistory uuid now query recipe videos s) = Inr None
      \<or> fst (saveRecipeToHistory uuid now query recipe videos s)
          = Inr (Some (newItem uuid now query recipe videos)))"
  by (auto simp add: saveRecipeToHistory_eq split: option.splits blob.splits json.splits)

theorem append_failure_leaves_storage_witness:
  "saveRecipeToHistory ''u1'' 1 ''soup'' JNull []
      \<lparr>denied = False, full = True, slot = Some (Encoded (JArr [JNum 1]))\<rparr>
     = (Inr None, \<lparr>denied = False, full = True, slot = Some (Encoded (JArr [JNum 1]))\<rparr>)
   \<and> saveRecipeToHistory ''u1'' 1 ''soup'' JNull []
      \<lparr>denied = True, full = False, slot = None\<rparr>
     = (Inr None, \<lparr>denied = True, full = False, slot = None\<rparr>)"
  using append_failure_leaves_storage
      [of "\<lparr>denied = False, full = True, slot = Some (Encoded (JArr [JNum 1]))\<rparr>"
          "''u1''" 1 "''soup''" JNull "[]"]
    append_failure_leaves_storage
      [of "\<lparr>denied = True, full = False, slot = None\<rparr>" "''u1''" 1 "''soup''" JNull "[]"]
  by simp

text \<open>
  C4, as the code has it. On a storage that can be read and written: when the key is
  absent or holds the empty string, \<^verbatim>\<open>saveRecipeToHistory\<close> starts from the empty log,
  returns the created entry and stores a log with that entry alone; when the key holds a
  non-empty string that \<^verbatim>\<open>JSON.parse\<close> rejects, the call returns \<^verbatim>\<open>null\<close> and the storage
  is what it was.
\<close>

theorem append_on_absent_or_unparseable:
  assumes "\<not> denied s" and "\<not> full s"
  shows "(slot s = None \<or> slot s = Some Blank \<longrightarrow>
            saveRecipeToHistory uuid now query recipe videos s
              = (Inr (Some (newItem uuid now query recipe videos)),
                 s\<lparr>slot := Some (Encoded (JArr [newItem uuid now query recipe videos]))\<rparr>)
          \<and> getSavedRecipes
                (s\<lparr>slot := Some (Encoded (JArr [newItem uuid now query recipe videos]))\<rparr>)
              = (Inr (JArr [newItem uuid now query recipe videos]),
                 s\<lparr>slot := Some (Encoded (JArr [newItem uuid now query recipe videos]))\<rparr>))
       \<and> (slot s = Some Malformed \<longrightarrow>
            saveRecipeToHistory uuid now query recipe videos s = (Inr None, s))"
  using assms by (auto simp add: saveRecipeToHistory_eq getSavedRecipes_eq)

theorem append_on_absent_or_unparseable_witness:
  "saveRecipeToHistory ''u1'' 1 ''soup'' JNull [] \<lparr>denied = False, full = False, slot = None\<rparr>
     = (Inr (Some (newItem ''u1'' 1 ''soup'' JNull [])),
        \<lparr>denied = False, full = False,
         slot = Some (Encoded (JArr [newItem ''u1'' 1 ''soup'' JNull []]))\<rparr>)
   \<and> saveRecipeToHistory ''u1'' 1 ''soup'' JNull [] \<lparr>denied = False, full = False, slot = Some Blank\<rparr>
     = (Inr (Some (newItem ''u1'' 1 ''soup'' JNull [])),
        \<lparr>denied = False, full = False,
         slot = Some (Encoded (JArr [newItem ''u1'' 1 ''soup'' JNull []]))\<rparr>)
   \<and> getSavedRecipes \<lparr>denied = False, full = False,
         slot = Some (Encoded (JArr [newItem ''u1'' 1 ''soup'' JNull []]))\<rparr>
     = (Inr (JArr [newItem ''u1'' 1 ''soup'' JNull []]),
        \<lparr>denied = False, full = False,
         slot = Some (Encoded (JArr [newItem ''u1'' 1 ''soup'' JNull []]))\<rparr>)"
  using append_on_absent_or_unparseable
      [of "\<lparr>denied = False, full = False, slot = None\<rparr>" "''u1''" 1 "''soup''" JNull "[]"]
    append_on_absent_or_unparseable
      [of "\<lparr>denied = False, full = False, slot = Some Blank\<rparr>" "''u1''" 1 "''soup''" JNull "[]"]
  by simp

text \<open>
  C4, as stated, fails: with an unparseable blob under the key the call does not succeed
  and stores nothing.
\<close>

theorem append_unparseable_counterexample:
  "saveRecipeToHistory ''u1'' 1 ''soup'' JNull []
      \<lparr>denied = False, full = False, slot = Some Malformed\<rparr>
     = (Inr None, \<lparr>denied = False, full = False, slot = Some Malformed\<rparr>)"
  by (simp add: saveRecipeToHistory_eq)

section \<open>A failed rating\<close>

text \<open>
  C10. When the read throws, the key is absent or holds the empty string, the blob cannot
  be parsed or is not an array of non-null entries, or the write throws,
  \<^verbatim>\<open>updateRecipeRating\<close> returns the empty array and the storage is what it was. That is
  the value it returns for a stored empty log, and \<^verbatim>\<open>handleRateRecipe\<close> puts it in place of
  the list of saved recipes.
\<close>

theorem setRating_failure_looks_like_empty_log:
  assumes "denied s \<or> slot s = None \<or> slot s = Some Blank \<or> slot s = Some Malformed
           \<or> (\<exists>v. slot s = Some (Encoded v) \<and> \<not> is_array v)
           \<or> (\<exists>xs. slot s = Some (Encoded (JArr xs)) \<and> JNull \<in> set xs)
           \<or> full s"
  shows "updateRecipeRating i r s = (Inr (JArr []), s)
       \<and> fst (updateRecipeRating i r
                 \<lparr>denied = False, full = False, slot = Some (Encoded (JArr []))\<rparr>)
           = Inr (JArr [])
       \<and> (currentSavedId u = Some i \<and> i \<noteq> [] \<longrightarrow>
            handleRateRecipe r u s
              = (Inr (u\<lparr>savedRecipes := JArr [], currentUserRating := r\<rparr>), s))"
proof -
  have upd: "updateRecipeRating i r s = (Inr (JArr []), s)"
    using assms
    by (auto simp add: updateRecipeRating_eq map_items_null array_map_not_array
        split: option.splits blob.splits sum.splits)
  have empty: "fst (updateRecipeRating i r
                 \<lparr>denied = False, full = False, slot = Some (Encoded (JArr []))\<rparr>)
                = Inr (JArr [])"
    by (simp add: updateRecipeRating_eq)
  have ui: "currentSavedId u = Some i \<and> i \<noteq> [] \<longrightarrow>
            handleRateRecipe r u s
              = (Inr (u\<lparr>savedRecipes := JArr [], currentUserRating := r\<rparr>), s)"
    using upd by (simp add: handleRateRecipe_def andThen_def ret_def)
  from upd empty ui show ?thesis by (intro conjI)
qed

theorem setRating_failure_looks_like_empty_log_witness:
  "updateRecipeRating ''a'' 5
      \<lparr>denied = False, full = True,
       slot = Some (Encoded (JArr [JObj [(''id'', JStr ''a'')]]))\<rparr>
     = (Inr (JArr []),
        \<lparr>denied = False, full = True,
         slot = Some (Encoded (JArr [JObj [(''id'', JStr ''a'')]]))\<rparr>)
   \<and> handleRateRecipe 5
        \<lparr>savedRecipes = JArr [JObj [(''id'', JStr ''a'')]], currentSavedId = Some ''a'',
         currentUserRating = 0\<rparr>
        \<lparr>denied = False, full = True,
         slot = Some (Encoded (JArr [JObj [(''id'', JStr ''a'')]]))\<rparr>
     = (Inr \<lparr>savedRecipes = JArr [], currentSavedId = Some ''a'', currentUserRating = 5\<rparr>,
        \<lparr>denied = False, full = True,
         slot = Some (Encoded (JArr [JObj [(''id'', JStr ''a'')]]))\<rparr>)
   \<and> updateRecipeRating ''a'' 5 \<lparr>denied = False, full = False, slot = None\<rparr>
     = (Inr (JArr []), \<lparr>denied = False, full = False, slot = None\<rparr>)"
  using setRating_failure_looks_like_empty_log
      [of "\<lparr>denied = False, full = True,
            slot = Some (Encoded (JArr [JObj [(''id'', JStr ''a'')]]))\<rparr>" "''a''" 5
          "\<lparr>savedRecipes = JArr [JObj [(''id'', JStr ''a'')]], currentSavedId = Some ''a'',
            currentUserRating = 0\<rparr>"]
    setRating_failure_looks_like_empty_log
      [of "\<lparr>denied = False, full = False, slot = None\<rparr>" "''a''" 5
          "\<lparr>savedRecipes = JArr [], currentSavedId = None, currentUserRating = 0\<rparr>"]
  by simp

section \<open>Twenty entries at most\<close>

lemma take_append_take: "take n (ys @ take n zs) = take n (ys @ zs)"
  by (simp add: min_def)

lemma save_call_ok:
  assumes "\<not> denied s" and "\<not> full s"
    and "slot s = None \<and> xs = [] \<or> slot s = Some (Encoded (JArr xs))"
  shows "save_call c s =
           (Inr (Some (item_of c)), s\<lparr>slot := Some (Encoded (JArr (take 20 (item_of c # xs))))\<rparr>)"
  using assms by (cases c) (auto simp add: save_call_def item_of_def saveRecipeToHistory_eq)

lemma appends_log:
  assumes "\<not> denied s" and "\<not> full s"
    and "slot s = None \<and> xs = [] \<or> slot s = Some (Encoded (JArr xs))"
    and "calls \<noteq> []"
  shows "appends calls s =
           (map (\<lambda>c. Inr (Some (item_of c))) calls,
            s\<lparr>slot := Some (Encoded (JArr (take 20 (rev (map item_of calls) @ xs))))\<rparr>)"
  using assms
proof (induction calls arbitrary: s xs)
  case Nil
  then show ?case by simp
next
  case (Cons c cs)
  let ?s' = "s\<lparr>slot := Some (Encoded (JArr (take 20 (item_of c # xs))))\<rparr>"
  have step: "save_call c s = (Inr (Some (item_of c)), ?s')"
    using Cons.prems(1-3) by (rule save_call_ok)
  show ?case
  proof (cases "cs = []")
    case True
    with step show ?thesis by simp
  next
    case False
    have "appends cs ?s' =
            (map (\<lambda>c. Inr (Some (item_of c))) cs,
             ?s'\<lparr>slot := Some (Encoded (JArr
                    (take 20 (rev (map item_of cs) @ take 20 (item_of c # xs)))))\<rparr>)"
      using Cons.prems(1,2) False by (intro Cons.IH) simp_all
    moreover have "take 20 (rev (map item_of cs) @ take 20 (item_of c # xs))
                     = take 20 (rev (map item_of (c # cs)) @ xs)"
      by (simp only: take_append_take) simp
    ultimately have "appends cs ?s' =
            (map (\<lambda>c. Inr (Some (item_of c))) cs,
             ?s'\<lparr>slot := Some (Encoded (JArr (take 20 (rev (map item_of (c # cs)) @ xs))))\<rparr>)"
      by (simp only:)
    with step show ?thesis by simp
  qed
qed

text \<open>
  C1. On a storage that can be read and written and holds nothing under the key, more
  than 20 calls of \<^verbatim>\<open>saveRecipeToHistory\<close> all succeed, each returning the entry it
  created, and \<^verbatim>\<open>getSavedRecipes\<close> then returns exactly 20 entries: the entries of the last
  20 calls, the newest first. The entry at position \<open>j\<close> is the one created \<open>j\<close> calls
  before the last.
\<close>

theorem append_keeps_twenty_newest:
  assumes "\<not> denied s" and "\<not> full s" and "slot s = None" and "20 < length calls"
  shows "fst (appends calls s) = map (\<lambda>c. Inr (Some (item_of c))) calls
       \<and> getSavedRecipes (snd (appends calls s))
           = (Inr (JArr (take 20 (rev (map item_of calls)))), snd (appends calls s))
       \<and> length (take 20 (rev (map item_of calls))) = 20
       \<and> (\<forall>j<20. take 20 (rev (map item_of calls)) ! j
                    = item_of (calls ! (length calls - 1 - j)))"
proof -
  from assms(4) have ne: "calls \<noteq> []" by auto
  have run: "appends calls s =
           (map (\<lambda>c. Inr (Some (item_of c))) calls,
            s\<lparr>slot := Some (Encoded (JArr (take 20 (rev (map item_of calls) @ []))))\<rparr>)"
    using assms(1,2) _ ne by (rule appends_log) (simp add: assms(3))
  have results: "fst (appends calls s) = map (\<lambda>c. Inr (Some (item_of c))) calls"
    using run by simp
  have listed: "getSavedRecipes (snd (appends calls s))
           = (Inr (JArr (take 20 (rev (map item_of calls)))), snd (appends calls s))"
    using run assms(1) by (simp add: getSavedRecipes_eq)
  have len: "length (take 20 (rev (map item_of calls))) = 20"
    using assms(4) by simp
  have order: "\<forall>j<20. take 20 (rev (map item_of calls)) ! j
                    = item_of (calls ! (length calls - 1 - j))"
  proof (intro allI impI)
    fix j :: nat
    assume j: "j < 20"
    with assms(4) have "j < length calls" by simp
    then have "rev (map item_of calls) ! j = map item_of calls ! (length calls - 1 - j)"
      by (simp add: rev_nth)
    with j assms(4) show "take 20 (rev (map item_of calls)) ! j
                    = item_of (calls ! (length calls - 1 - j))"
      by simp
  qed
  from results listed len order show ?thesis by (intro conjI)
qed

theorem append_keeps_twenty_newest_witness:
  "fst (getSavedRecipes (snd (appends
      (map (\<lambda>n. (replicate n CHR ''s'', of_nat n, ''soup'', JNull, [])) [0..<21])
      \<lparr>denied = False, full = False, slot = None\<rparr>)))
   = Inr (JArr (rev (map (\<lambda>n. newItem (replicate n CHR ''s'') (of_nat n) ''soup'' JNull [])
                        [1..<21])))"
proof -
  have "[0..<21] = 0 # [1..<21]"
    by (simp add: upt_conv_Cons)
  then have "take 20 (rev (map (\<lambda>n. newItem (replicate n CHR ''s'') (of_nat n) ''soup'' JNull [])
                             [0..<21]))
             = rev (map (\<lambda>n. newItem (replicate n CHR ''s'') (of_nat n) ''soup'' JNull [])
                        [1..<21])"
    by (simp del: upt_Suc)
  then show ?thesis
    using append_keeps_twenty_newest
      [of "\<lparr>denied = False, full = False, slot = None\<rparr>"
          "map (\<lambda>n. (replicate n CHR ''s'', of_nat n, ''soup'', JNull, [])) [0..<21]"]
    by (simp add: item_of_def comp_def del: upt_Suc)
qed

section \<open>The video lookup\<close>

lemma Map_new_acc_keys:
  "distinct (map fst m) \<Longrightarrow>
   distinct (map fst (foldl (\<lambda>m e. AList.update (fst e) (snd e) m) m es))"
  by (induction es arbitrary: m) (simp_all add: distinct_update)

lemma Map_new_distinct: "distinct (map fst (Map_new es))"
  by (simp add: Map_new_def Map_new_acc_keys)

lemma Map_new_acc_keyed:
  "\<forall>e\<in>set m. f (snd e) = fst e \<Longrightarrow> \<forall>e\<in>set es. f (snd e) = fst e \<Longrightarrow>
   \<forall>e\<in>set (foldl (\<lambda>m e. AList.update (fst e) (snd e) m) m es). f (snd e) = fst e"
proof (induction es arbitrary: m)
  case Nil
  then show ?case by simp
next
  case (Cons e es)
  have "\<forall>p\<in>set (AList.update (fst e) (snd e) m). f (snd p) = fst p"
  proof
    fix p assume "p \<in> set (AList.update (fst e) (snd e) m)"
    then have "p \<in> set m \<or> p = (fst e, snd e)"
      by (induction m) (auto split: if_splits)
    with Cons.prems show "f (snd p) = fst p" by auto
  qed
  with Cons show ?case by simp
qed

lemma Map_new_acc_dom:
  "fst ` set (foldl (\<lambda>m e. AList.update (fst e) (snd e) m) m es) = fst ` set m \<union> fst ` set es"
  by (induction es arbitrary: m) (auto simp add: dom_update)

lemma Map_values_uri:
  "map uri (Map_values (Map_new (map (\<lambda>item. (uri item, item)) rs)))
     = map fst (Map_new (map (\<lambda>item. (uri item, item)) rs))"
proof -
  have "\<forall>e\<in>set (Map_new (map (\<lambda>item. (uri item, item)) rs)). uri (snd e) = fst e"
    unfolding Map_new_def by (rule Map_new_acc_keyed) auto
  then show ?thesis by (simp add: Map_values_def)
qed

lemma Map_values_uri_set:
  "set (map uri (Map_values (Map_new (map (\<lambda>item. (uri item, item)) rs)))) = set (map uri rs)"
  by (simp only: Map_values_uri) (simp add: Map_new_def Map_new_acc_dom image_image)

lemma Map_new_acc_order:
  "map fst (foldl (\<lambda>m e. AList.update (fst e) (snd e) m) m es)
     = map fst m @ rev (remdups (rev (filter (\<lambda>k. k \<notin> fst ` set m) (map fst es))))"
proof (induction es arbitrary: m)
  case Nil
  then show ?case by simp
next
  case (Cons e es)
  show ?case
  proof (cases "fst e \<in> fst ` set m")
    case True
    then have "map fst (AList.update (fst e) (snd e) m) = map fst m"
      by (simp add: update_keys)
    moreover from True have "fst ` set (AList.update (fst e) (snd e) m) = fst ` set m"
      by (auto simp add: dom_update)
    ultimately show ?thesis using True Cons.IH [of "AList.update (fst e) (snd e) m"]
      by simp
  next
    case False
    then have keys: "map fst (AList.update (fst e) (snd e) m) = map fst m @ [fst e]"
      by (simp add: update_keys)
    have dom: "fst ` set (AList.update (fst e) (snd e) m) = insert (fst e) (fst ` set m)"
      by (simp add: dom_update)
    have flt: "filter (\<lambda>k. k \<notin> insert (fst e) (fst ` set m)) (map fst es)
                 = filter (\<lambda>k. k \<noteq> fst e) (filter (\<lambda>k. k \<notin> fst ` set m) (map fst es))"
      by (induction es) auto
    have snoc: "remdups (xs @ [fst e]) = remdups (filter (\<lambda>k. k \<noteq> fst e) xs) @ [fst e]" for xs
      by (induction xs) auto
    have first: "rev (remdups (rev (filter (\<lambda>k. k \<notin> fst ` set m) (map fst (e # es)))))
            = fst e # rev (remdups (rev (filter (\<lambda>k. k \<noteq> fst e)
                       (filter (\<lambda>k. k \<notin> fst ` set m) (map fst es)))))"
      using False by (simp add: snoc rev_filter)
    have rest: "map fst (foldl (\<lambda>m e. AList.update (fst e) (snd e) m)
                          (AList.update (fst e) (snd e) m) es)
            = (map fst m @ [fst e]) @ rev (remdups (rev (filter (\<lambda>k. k \<noteq> fst e)
                       (filter (\<lambda>k. k \<notin> fst ` set m) (map fst es)))))"
      using Cons.IH [of "AList.update (fst e) (snd e) m"] by (simp only: keys dom flt)
    show ?thesis
      by (simp only: foldl_Cons rest first append_assoc append_Cons append_Nil)
  qed
qed

lemma Map_new_order: "map fst (Map_new es) = rev (remdups (rev (map fst es)))"
  by (simp add: Map_new_def Map_new_acc_order)

lemma Map_new_acc_lookup:
  "map_of (foldl (\<lambda>m e. AList.update (fst e) (snd e) m) m es) = map_of m ++ map_of (rev es)"
proof (induction es arbitrary: m)
  case Nil
  then show ?case by simp
next
  case (Cons e es)
  have upd: "map_of (AList.update (fst e) (snd e) m) = map_of m ++ map_of [e]"
    by (simp add: update_conv')
  have "map_of (foldl (\<lambda>m e. AList.update (fst e) (snd e) m) m (e # es))
          = map_of (AList.update (fst e) (snd e) m) ++ map_of (rev es)"
    using Cons.IH [of "AList.update (fst e) (snd e) m"] by simp
  also have "\<dots> = map_of m ++ (map_of [e] ++ map_of (rev es))"
    by (simp only: upd map_add_assoc)
  also have "map_of [e] ++ map_of (rev es) = map_of (rev (e # es))"
    by (simp only: rev.simps map_of_append)
  finally show ?case .
qed

lemma Map_new_lookup: "map_of (Map_new es) = map_of (rev es)"
  by (simp add: Map_new_def Map_new_acc_lookup)

lemma map_of_keyed_find: "map_of (map (\<lambda>x. (f x, x)) xs) k = List.find (\<lambda>x. f x = k) xs"
  by (induction xs) auto

lemma Map_values_last:
  assumes "v \<in> set (Map_values (Map_new (map (\<lambda>item. (uri item, item)) rs)))"
  shows "List.find (\<lambda>c. uri c = uri v) (rev rs) = Some v"
proof -
  let ?es = "map (\<lambda>item. (uri item, item)) rs"
  from assms obtain k where kv: "(k, v) \<in> set (Map_new ?es)"
    by (auto simp add: Map_values_def)
  have "\<forall>e\<in>set (Map_new ?es). uri (snd e) = fst e"
    unfolding Map_new_def by (rule Map_new_acc_keyed) auto
  with kv have k: "k = uri v" by auto
  from kv have "map_of (Map_new ?es) k = Some v"
    using Map_new_distinct [of ?es] by simp
  then have "map_of (rev ?es) (uri v) = Some v"
    by (simp add: Map_new_lookup k)
  then show ?thesis
    by (simp add: rev_map map_of_keyed_find)
qed


text \<open>
  C9. Whatever the request to the model ends with, \<^verbatim>\<open>findRecipeVideos\<close> throws nothing
  and returns a list in which no two entries have the same URI and which has at most 4
  entries; when the request ends with an exception the list is empty. The deduplication
  loses no URI: the URIs returned are the distinct URIs of the candidates that passed the
  filter, in the order in which each first appears, cut after the fourth; so the list has
  4 entries, or as many as there are distinct candidate URIs when these are fewer. Each
  entry returned is the last candidate with its URI. Two candidates that pass the filter
  and have the same URI yield one entry (with the later title).
\<close>

theorem video_lookup_dedup_and_cap:
  "\<exists>vs. findRecipeVideos response = Inr vs
      \<and> distinct (map uri vs) \<and> length vs \<le> 4
      \<and> (\<forall>e. response = Inl e \<longrightarrow> vs = [])
      \<and> (response = Inr None \<longrightarrow> vs = [])
      \<and> (\<forall>cs. response = Inr (Some cs) \<longrightarrow>
            map uri vs
              = take 4 (rev (remdups (rev (map uri (List.map_filter video_of_chunk cs)))))
          \<and> length vs
              = min 4 (length (remdups (map uri (List.map_filter video_of_chunk cs))))
          \<and> (\<forall>v\<in>set vs. List.find (\<lambda>c. uri c = uri v)
                              (rev (List.map_filter video_of_chunk cs)) = Some v))
      \<and> (\<forall>c1 c2 v1 v2. response = Inr (Some [c1, c2]) \<and> video_of_chunk c1 = Some v1
             \<and> video_of_chunk c2 = Some v2 \<and> uri v1 = uri v2 \<longrightarrow> vs = [v2])"
proof (cases response)
  case (Inl e)
  then show ?thesis by (simp add: findRecipeVideos_def)
next
  case (Inr chunks)
  let ?rs = "case chunks of None \<Rightarrow> [] | Some cs \<Rightarrow> List.map_filter video_of_chunk cs"
  let ?all = "Map_values (Map_new (map (\<lambda>item. (uri item, item)) ?rs))"
  let ?vs = "take 4 ?all"
  have res: "findRecipeVideos response = Inr ?vs"
    using Inr by (simp add: findRecipeVideos_def)
  have uris_all: "map uri ?all = rev (remdups (rev (map uri ?rs)))"
    by (simp only: Map_values_uri Map_new_order) (simp add: comp_def)
  have uris: "map uri ?vs = take 4 (rev (remdups (rev (map uri ?rs))))"
    by (simp only: take_map uris_all [symmetric])
  have "distinct (map uri ?all)"
    by (simp only: Map_values_uri Map_new_distinct)
  then have dist: "distinct (map uri ?vs)"
    by (simp only: take_map [symmetric] distinct_take)
  have len: "length ?vs \<le> 4" by simp
  have "length ?all = length (map uri ?all)" by simp
  also have "\<dots> = length (remdups (map uri ?rs))"
    by (simp only: uris_all) (simp add: length_remdups_card_conv)
  finally have count: "length ?vs = min 4 (length (remdups (map uri ?rs)))"
    by (simp add: min.commute)
  have last: "\<forall>v\<in>set ?vs. List.find (\<lambda>c. uri c = uri v) (rev ?rs) = Some v"
  proof
    fix v assume "v \<in> set ?vs"
    then have "v \<in> set ?all" by (rule in_set_takeD)
    then show "List.find (\<lambda>c. uri c = uri v) (rev ?rs) = Some v" by (rule Map_values_last)
  qed
  have err: "\<forall>e. response = Inl e \<longrightarrow> ?vs = []"
    using Inr by simp
  have none: "response = Inr None \<longrightarrow> ?vs = []"
    using Inr by (simp add: Map_new_def Map_values_def)
  have some: "\<forall>cs. response = Inr (Some cs) \<longrightarrow>
            map uri ?vs
              = take 4 (rev (remdups (rev (map uri (List.map_filter video_of_chunk cs)))))
          \<and> length ?vs
              = min 4 (length (remdups (map uri (List.map_filter video_of_chunk cs))))
          \<and> (\<forall>v\<in>set ?vs. List.find (\<lambda>c. uri c = uri v)
                              (rev (List.map_filter video_of_chunk cs)) = Some v)"
  proof (intro allI impI)
    fix cs assume "response = Inr (Some cs)"
    with Inr have "chunks = Some cs" by simp
    with uris count last show "map uri ?vs
              = take 4 (rev (remdups (rev (map uri (List.map_filter video_of_chunk cs)))))
          \<and> length ?vs
              = min 4 (length (remdups (map uri (List.map_filter video_of_chunk cs))))
          \<and> (\<forall>v\<in>set ?vs. List.find (\<lambda>c. uri c = uri v)
                              (rev (List.map_filter video_of_chunk cs)) = Some v)"
      by simp
  qed
  have two: "\<forall>c1 c2 v1 v2. response = Inr (Some [c1, c2]) \<and> video_of_chunk c1 = Some v1
             \<and> video_of_chunk c2 = Some v2 \<and> uri v1 = uri v2 \<longrightarrow> ?vs = [v2]"
    using Inr by (auto simp add: List.map_filter_def Map_new_def Map_values_def)
  from res dist len err none some two show ?thesis by (intro exI [of _ ?vs] conjI)
qed



theorem video_lookup_dedup_and_cap_witness:
  "findRecipeVideos (Inr (Some
      [\<lparr>web = Some \<lparr>web_uri = Some ''https://youtu.be/x1'', web_title = Some ''Soup''\<rparr>\<rparr>,
       \<lparr>web = Some \<lparr>web_uri = Some ''https://youtu.be/x1'', web_title = Some ''Best soup''\<rparr>\<rparr>]))
   = Inr [\<lparr>title = ''Best soup'', uri = ''https://youtu.be/x1'', source = ''Web''\<rparr>]
   \<and> findRecipeVideos (Inl ApiError) = Inr []
   \<and> map_sum id (map uri) (findRecipeVideos (Inr (Some
      [\<lparr>web = Some \<lparr>web_uri = Some ''https://youtu.be/a'', web_title = Some ''Soup''\<rparr>\<rparr>,
       \<lparr>web = Some \<lparr>web_uri = Some ''https://youtu.be/b'', web_title = Some ''Stew''\<rparr>\<rparr>,
       \<lparr>web = Some \<lparr>web_uri = Some ''https://youtu.be/a'', web_title = Some ''Best soup''\<rparr>\<rparr>,
       \<lparr>web = Some \<lparr>web_uri = Some ''https://example.com/c'', web_title = Some ''Blog''\<rparr>\<rparr>,
       \<lparr>web = Some \<lparr>web_uri = Some ''https://vimeo.com/c'', web_title = Some ''Rice''\<rparr>\<rparr>,
       \<lparr>web = Some \<lparr>web_uri = Some ''https://tiktok.com/d'', web_title = Some ''Dal''\<rparr>\<rparr>,
       \<lparr>web = Some \<lparr>web_uri = Some ''https://youtu.be/e'', web_title = Some ''Eggs''\<rparr>\<rparr>])))
   = Inr [''https://youtu.be/a'', ''https://youtu.be/b'', ''https://vimeo.com/c'',
          ''https://tiktok.com/d'']"
proof -
  define c1 where "c1 = \<lparr>web = Some \<lparr>web_uri = Some ''https://youtu.be/x1'', web_title = Some ''Soup''\<rparr>\<rparr>"
  define c2 where "c2 = \<lparr>web = Some \<lparr>web_uri = Some ''https://youtu.be/x1'', web_title = Some ''Best soup''\<rparr>\<rparr>"
  define v1 where
    "v1 = \<lparr>title = ''Soup'', uri = ''https://youtu.be/x1'', source = ''Web''\<rparr>"
  define v2 where
    "v2 = \<lparr>title = ''Best soup'', uri = ''https://youtu.be/x1'', source = ''Web''\<rparr>"
  define six where "six =
      [\<lparr>web = Some \<lparr>web_uri = Some ''https://youtu.be/a'', web_title = Some ''Soup''\<rparr>\<rparr>,
       \<lparr>web = Some \<lparr>web_uri = Some ''https://youtu.be/b'', web_title = Some ''Stew''\<rparr>\<rparr>,
       \<lparr>web = Some \<lparr>web_uri = Some ''https://youtu.be/a'', web_title = Some ''Best soup''\<rparr>\<rparr>,
       \<lparr>web = Some \<lparr>web_uri = Some ''https://example.com/c'', web_title = Some ''Blog''\<rparr>\<rparr>,
       \<lparr>web = Some \<lparr>web_uri = Some ''https://vimeo.com/c'', web_title = Some ''Rice''\<rparr>\<rparr>,
       \<lparr>web = Some \<lparr>web_uri = Some ''https://tiktok.com/d'', web_title = Some ''Dal''\<rparr>\<rparr>,
       \<lparr>web = Some \<lparr>web_uri = Some ''https://youtu.be/e'', web_title = Some ''Eggs''\<rparr>\<rparr>]"
  have p1: "video_of_chunk c1 = Some v1"
    unfolding c1_def v1_def by (simp add: video_of_chunk_def)
  have p2: "video_of_chunk c2 = Some v2"
    unfolding c2_def v2_def by (simp add: video_of_chunk_def)
  have same: "uri v1 = uri v2"
    unfolding v1_def v2_def by simp
  have two: "findRecipeVideos (Inr (Some [c1, c2])) = Inr [v2]"
    using video_lookup_dedup_and_cap [of "Inr (Some [c1, c2])"] p1 p2 same
    by (elim exE conjE) simp
  have err: "findRecipeVideos (Inl ApiError) = Inr []"
    using video_lookup_dedup_and_cap [of "Inl ApiError"]
    by (elim exE conjE) simp
  have cands: "map uri (List.map_filter video_of_chunk six)
    = [''https://youtu.be/a'', ''https://youtu.be/b'', ''https://youtu.be/a'',
       ''https://vimeo.com/c'', ''https://tiktok.com/d'', ''https://youtu.be/e'']"
    unfolding six_def by (simp add: List.map_filter_def video_of_chunk_def toLowerCase_def)
  have "map_sum id (map uri) (findRecipeVideos (Inr (Some six)))
      = Inr (take 4 (rev (remdups (rev (map uri (List.map_filter video_of_chunk six))))))"
    using video_lookup_dedup_and_cap [of "Inr (Some six)"]
    by (elim exE conjE) simp
  then have six: "map_sum id (map uri) (findRecipeVideos (Inr (Some six)))
      = Inr [''https://youtu.be/a'', ''https://youtu.be/b'', ''https://vimeo.com/c'',
          ''https://tiktok.com/d'']"
    by (simp only: cands) simp
  from two err six show ?thesis
    unfolding c1_def c2_def v2_def six_def by (intro conjI)
qed

end
